theory Spec2Isabelle
  imports Complex_Main "HOL-Library.Sublist"
begin

section \<open>JavaScript numbers and built-in operations\<close>

text \<open>
  The engine computes with JavaScript numbers, IEEE doubles. They are modelled as
  mathematical reals (\<^typ>\<open>real\<close>), and as \<^typ>\<open>int\<close> or \<^typ>\<open>nat\<close> where the program
  only ever holds whole numbers (indices, counts, percentages, tracks). Arithmetic is
  exact in the model, with one exception: the sum in \<^verbatim>\<open>(x + 360) % 360\<close>, whose rounding
  to a double decides what a second normalization does, is rounded by a function that
  the model takes as a parameter (see \<open>Platform\<close> below). NaN, the infinities and the
  sign of zero are outside this model.
\<close>

text \<open>Truncation toward zero, the quotient behind the remainder operator.\<close>

definition trunc :: "real \<Rightarrow> int" where
  "trunc x = (if x < 0 then - \<lfloor>- x\<rfloor> else \<lfloor>x\<rfloor>)"

text \<open>
  The operator \<^verbatim>\<open>a % b\<close>: the remainder of the truncated division, which takes the
  sign of the dividend. The program only divides by the constants 360, 30 and 12.
\<close>

definition js_rem :: "real \<Rightarrow> real \<Rightarrow> real" where
  "js_rem a b = a - b * of_int (trunc (a / b))"

text \<open>The same operator on whole numbers.\<close>

definition js_irem :: "int \<Rightarrow> int \<Rightarrow> int" where
  "js_irem a b = (if a < 0 then - ((- a) mod \<bar>b\<bar>) else a mod \<bar>b\<bar>)"

text \<open>\<^verbatim>\<open>Math.round\<close>: the nearest integer, a half rounds up.\<close>

definition Math_round :: "real \<Rightarrow> int" where
  "Math_round x = \<lfloor>x + 1 / 2\<rfloor>"

text \<open>
  \<^verbatim>\<open>Math.atan2(y, x)\<close>: the angle of the point \<open>(x, y)\<close>, in \<open>(-\<pi>, \<pi>]\<close>; it returns
  a number for every pair of arguments.
\<close>

definition Math_atan2 :: "real \<Rightarrow> real \<Rightarrow> real" where
  "Math_atan2 y x =
     (if 0 < x then arctan (y / x)
      else if x < 0 then (if 0 \<le> y then arctan (y / x) + pi else arctan (y / x) - pi)
      else if 0 < y then pi / 2
      else if y < 0 then - (pi / 2)
      else 0)"

text \<open>\<^verbatim>\<open>Array.prototype.findIndex\<close>: the index of the first match, or -1.\<close>

fun findIndex :: "('a \<Rightarrow> bool) \<Rightarrow> 'a list \<Rightarrow> int" where
  "findIndex P [] = - 1"
| "findIndex P (x # xs) =
     (if P x then 0 else (let r = findIndex P xs in if r < 0 then - 1 else r + 1))"

text \<open>Reading an array at a numeric index: \<^verbatim>\<open>undefined\<close> outside the array.\<close>

definition at_index :: "'a list \<Rightarrow> int \<Rightarrow> 'a option" where
  "at_index xs i = (if 0 \<le> i \<and> i < int (length xs) then Some (xs ! nat i) else None)"

text \<open>
  What the model takes from the JavaScript platform. \<open>fl\<close> is the rounding of the exact
  result of an addition to a double; the remainder operator that follows it is exact in
  IEEE arithmetic. \<open>Math_tan\<close> is \<^verbatim>\<open>Math.tan\<close>: it returns a number for every
  argument, and at the argument the program computes for a latitude of 90 degrees
  (the double next to \<open>\<pi>/2\<close>) that number is about \<open>1.6e16\<close>, where \<^const>\<open>tan\<close> of HOL
  is 0; so it is a parameter and not \<^const>\<open>tan\<close>.
\<close>

record Platform =
  fl :: "real \<Rightarrow> real"
  Math_tan :: "real \<Rightarrow> real"


section \<open>The chart engine (astronomyService)\<close>

subsection \<open>Data\<close>

text \<open>
  The table \<^verbatim>\<open>ZODIAC_SIGNS\<close> of the constants module, entry by entry. Its \<^verbatim>\<open>symbol\<close>
  field, and the symbol fields of the other records, hold display glyphs outside ASCII
  that no computation reads; they are left out.
\<close>

record ZodiacSign =
  name :: string
  startDegree :: real
  element :: string

definition ZODIAC_SIGNS :: "ZodiacSign list" where
  "ZODIAC_SIGNS =
     [\<lparr>name = ''Aries'', startDegree = 0, element = ''fire''\<rparr>,
      \<lparr>name = ''Taurus'', startDegree = 30, element = ''earth''\<rparr>,
      \<lparr>name = ''Gemini'', startDegree = 60, element = ''air''\<rparr>,
      \<lparr>name = ''Cancer'', startDegree = 90, element = ''water''\<rparr>,
      \<lparr>name = ''Leo'', startDegree = 120, element = ''fire''\<rparr>,
      \<lparr>name = ''Virgo'', startDegree = 150, element = ''earth''\<rparr>,
      \<lparr>name = ''Libra'', startDegree = 180, element = ''air''\<rparr>,
      \<lparr>name = ''Scorpio'', startDegree = 210, element = ''water''\<rparr>,
      \<lparr>name = ''Sagittarius'', startDegree = 240, element = ''fire''\<rparr>,
      \<lparr>name = ''Capricorn'', startDegree = 270, element = ''earth''\<rparr>,
      \<lparr>name = ''Aquarius'', startDegree = 300, element = ''air''\<rparr>,
      \<lparr>name = ''Pisces'', startDegree = 330, element = ''water''\<rparr>]"

text \<open>
  The functions of the imported ephemeris library that the engine calls, as a record of
  functions: \<open>Observer_ok lat lon height\<close> tells whether the constructor of an observer
  accepts the coordinates (it throws otherwise), \<open>SiderealTime date\<close> is the Greenwich
  sidereal time in hours, and \<open>elon body date\<close> is the geocentric ecliptic longitude of
  a body (\<^verbatim>\<open>Ecliptic(GeoVector(body, MakeTime(date), true)).elon\<close>). An instant is its
  number of milliseconds since the epoch (\<^verbatim>\<open>date.getTime()\<close>).
\<close>

record Astronomy =
  Observer_ok :: "real \<Rightarrow> real \<Rightarrow> real \<Rightarrow> bool"
  SiderealTime :: "int \<Rightarrow> real"
  elon :: "string \<Rightarrow> int \<Rightarrow> real"

text \<open>
  What can go wrong: the library throws, or a property is read from \<^verbatim>\<open>undefined\<close>.
\<close>

datatype error = LibraryError | TypeError

definition BODIES :: "string list" where
  "BODIES = [''Sun'', ''Moon'', ''Mercury'', ''Venus'', ''Mars'',
             ''Jupiter'', ''Saturn'', ''Uranus'', ''Neptune'', ''Pluto'']"

record PlanetPosition =
  name :: string
  sign :: string
  degree :: real
  relativeDegree :: real
  house :: int
  retrograde :: bool

record ElementCounts =
  fire :: nat
  earth :: nat
  air :: nat
  water :: nat

record ElementalBalance =
  fire :: int
  earth :: int
  air :: int
  water :: int

record Rising =
  sign :: string
  degree :: real

record BigThree =
  sun :: string
  moon :: string
  rising :: string

record CalculatedChart =
  planets :: "PlanetPosition list"
  rising :: Rising
  elements :: ElementalBalance
  bigThree :: BigThree

subsection \<open>getZodiacInfo\<close>

text \<open>
  The first line of \<^verbatim>\<open>getZodiacInfo\<close>: \<^verbatim>\<open>(longitude + 360) % 360\<close>, the sum rounded
  to a double and the remainder exact.
\<close>

definition normalized :: "Platform \<Rightarrow> real \<Rightarrow> real" where
  "normalized P longitude = js_rem (fl P (longitude + 360)) 360"

definition getZodiacInfo :: "Platform \<Rightarrow> real \<Rightarrow> ZodiacSign option \<times> real" where
  "getZodiacInfo P longitude =
     (let signIndex = \<lfloor>normalized P longitude / 30\<rfloor>;
          sign = at_index ZODIAC_SIGNS signIndex;
          relativeDegree = js_rem (normalized P longitude) 30
      in (sign, relativeDegree))"

subsection \<open>calculateAscendant\<close>

text \<open>
  The function has no check of its arguments and no error of its own; the only call that
  can throw is the construction of the observer. Its last line is the same normalization,
  \<^verbatim>\<open>(ascDeg + 360) % 360\<close>.
\<close>

definition calculateAscendant ::
  "Platform \<Rightarrow> Astronomy \<Rightarrow> int \<Rightarrow> real \<Rightarrow> real \<Rightarrow> error + real" where
  "calculateAscendant P A date lat lon =
     (if \<not> Observer_ok A lat lon 0 then Inl LibraryError
      else
        let gmst = SiderealTime A date;
            lstHours = gmst + lon / 15;
            lstDeg = lstHours * 15;
            ramc = (lstDeg * pi) / 180;
            eps = (23.4392911 * pi) / 180;
            latRad = (lat * pi) / 180;
            num = cos ramc;
            den = - sin ramc * cos eps - Math_tan P latRad * sin eps;
            ascRad = Math_atan2 num den;
            ascDeg = (ascRad * 180) / pi
        in Inr (js_rem (fl P (ascDeg + 360)) 360))"

subsection \<open>calculateChart\<close>

text \<open>
  The whole-sign house of a sign, for the sign of the ascendant:
  \<^verbatim>\<open>((signIndex - ascSignIndex + 12) % 12) + 1\<close>.
\<close>

definition house_of :: "int \<Rightarrow> int \<Rightarrow> int" where
  "house_of signIndex ascSignIndex = js_irem (signIndex - ascSignIndex + 12) 12 + 1"

text \<open>
  The body of \<^verbatim>\<open>BODIES.map\<close>: one body's position, with the retrograde check
  against the position one hour (3600000 ms) later.
\<close>

definition calculatePlanet ::
  "Platform \<Rightarrow> Astronomy \<Rightarrow> int \<Rightarrow> int \<Rightarrow> string \<Rightarrow> error + PlanetPosition" where
  "calculatePlanet P A ascSignIndex date bodyName =
     (let longitude = elon A bodyName date;
          eclipticNext = elon A bodyName (date + 3600000);
          retro = (eclipticNext < longitude \<and> longitude - eclipticNext < 180)
      in case getZodiacInfo P longitude of
           (None, relDegree) \<Rightarrow> Inl TypeError
         | (Some zsign, relDegree) \<Rightarrow>
             (let signIndex =
                    findIndex (\<lambda>z. ZodiacSign.name z = ZodiacSign.name zsign) ZODIAC_SIGNS
              in Inr \<lparr>PlanetPosition.name = bodyName,
                      sign = ZodiacSign.name zsign,
                      degree = longitude,
                      relativeDegree = relDegree,
                      house = house_of signIndex ascSignIndex,
                      retrograde = retro\<rparr>))"

text \<open>\<^verbatim>\<open>Array.prototype.map\<close> with a callback that may throw: the first error ends it.\<close>

fun map_result :: "('a \<Rightarrow> error + 'b) \<Rightarrow> 'a list \<Rightarrow> error + 'b list" where
  "map_result f [] = Inr []"
| "map_result f (x # xs) =
     (case f x of
        Inl e \<Rightarrow> Inl e
      | Inr y \<Rightarrow> (case map_result f xs of Inl e \<Rightarrow> Inl e | Inr ys \<Rightarrow> Inr (y # ys)))"

text \<open>
  The element of a planet's sign: \<^verbatim>\<open>ZODIAC_SIGNS.find(z => z.name === p.sign)?.element\<close>.
\<close>

definition element_of :: "PlanetPosition \<Rightarrow> string option" where
  "element_of p =
     map_option element (find (\<lambda>z. ZodiacSign.name z = PlanetPosition.sign p) ZODIAC_SIGNS)"

text \<open>The keys of the object \<^verbatim>\<open>counts\<close>, and \<^verbatim>\<open>counts[el]++\<close> for one of them.\<close>

definition counts_keys :: "string list" where
  "counts_keys = [''fire'', ''earth'', ''air'', ''water'']"

definition increment :: "string \<Rightarrow> ElementCounts \<Rightarrow> ElementCounts" where
  "increment el counts =
     (if el = ''fire'' then counts\<lparr>ElementCounts.fire := ElementCounts.fire counts + 1\<rparr>
      else if el = ''earth'' then counts\<lparr>ElementCounts.earth := ElementCounts.earth counts + 1\<rparr>
      else if el = ''air'' then counts\<lparr>ElementCounts.air := ElementCounts.air counts + 1\<rparr>
      else if el = ''water'' then counts\<lparr>ElementCounts.water := ElementCounts.water counts + 1\<rparr>
      else counts)"

text \<open>
  The body of the counting loop, \<^verbatim>\<open>if (el && el in counts) counts[el]++\<close>: the element
  must be found, not empty, and a key of \<^verbatim>\<open>counts\<close>. (A name that \<^verbatim>\<open>counts\<close> only
  inherits from the object prototype would pass \<^verbatim>\<open>in\<close> as well and leave the four
  counters as they are; no element of the table is such a name.)
\<close>

definition countElement :: "ElementCounts \<Rightarrow> PlanetPosition \<Rightarrow> ElementCounts" where
  "countElement counts p =
     (case element_of p of
        None \<Rightarrow> counts
      | Some el \<Rightarrow> if el \<noteq> [] \<and> el \<in> set counts_keys then increment el counts else counts)"

definition countElements :: "PlanetPosition list \<Rightarrow> ElementCounts" where
  "countElements ps =
     foldl countElement \<lparr>ElementCounts.fire = 0, earth = 0, air = 0, water = 0\<rparr> ps"

text \<open>\<^verbatim>\<open>Math.round((count / total) * 100)\<close>.\<close>

definition percent :: "nat \<Rightarrow> nat \<Rightarrow> int" where
  "percent count tot = Math_round ((real count / real tot) * 100)"

text \<open>The remainder given to water, before the safety clip.\<close>

definition waterPct :: "ElementCounts \<Rightarrow> nat \<Rightarrow> int" where
  "waterPct counts tot =
     100 - percent (ElementCounts.fire counts) tot
         - percent (ElementCounts.earth counts) tot
         - percent (ElementCounts.air counts) tot"

definition percentages :: "ElementCounts \<Rightarrow> nat \<Rightarrow> ElementalBalance" where
  "percentages counts tot =
     \<lparr>ElementalBalance.fire = percent (ElementCounts.fire counts) tot,
      earth = percent (ElementCounts.earth counts) tot,
      air = percent (ElementCounts.air counts) tot,
      water = (if waterPct counts tot < 0 then 0 else waterPct counts tot)\<rparr>"

definition elementalBalance :: "PlanetPosition list \<Rightarrow> ElementalBalance" where
  "elementalBalance ps = percentages (countElements ps) (max (length ps) 1)"

text \<open>
  The number of planets whose sign has a given element: what the loop counts for it.
\<close>

definition bodies_in :: "PlanetPosition list \<Rightarrow> string \<Rightarrow> nat" where
  "bodies_in ps el = length (filter (\<lambda>p. element_of p = Some el) ps)"

text \<open>The sign of a named planet as the template string prints it.\<close>

definition sign_text :: "PlanetPosition list \<Rightarrow> string \<Rightarrow> string" where
  "sign_text ps body =
     (case find (\<lambda>p. PlanetPosition.name p = body) ps of
        None \<Rightarrow> ''undefined''
      | Some p \<Rightarrow> PlanetPosition.sign p)"

definition calculateChart ::
  "Platform \<Rightarrow> Astronomy \<Rightarrow> int \<Rightarrow> real \<Rightarrow> real \<Rightarrow> error + CalculatedChart" where
  "calculateChart P A date lat lon =
     (case calculateAscendant P A date lat lon of
        Inl e \<Rightarrow> Inl e
      | Inr ascDegree \<Rightarrow>
          (case getZodiacInfo P ascDegree of
             (None, relDegree) \<Rightarrow> Inl TypeError
           | (Some ascSign, relDegree) \<Rightarrow>
               (let ascSignIndex =
                      findIndex (\<lambda>z. ZodiacSign.name z = ZodiacSign.name ascSign) ZODIAC_SIGNS
                in case map_result (calculatePlanet P A ascSignIndex date) BODIES of
                     Inl e \<Rightarrow> Inl e
                   | Inr ps \<Rightarrow>
                       Inr \<lparr>planets = ps,
                            rising = \<lparr>Rising.sign = ZodiacSign.name ascSign,
                                      degree = ascDegree\<rparr>,
                            elements = elementalBalance ps,
                            bigThree = \<lparr>sun = sign_text ps ''Sun'',
                                        moon = sign_text ps ''Moon'',
                                        rising = ZodiacSign.name ascSign\<rparr>\<rparr>)))"

subsection \<open>calculateAspects\<close>

record SynastryAspect =
  planetA :: string
  planetB :: string
  aspectType :: string
  description :: string
  orb :: real

definition ORB :: real where
  "ORB = 6"

text \<open>The shortest distance on the circle between two longitudes.\<close>

definition aspectAngle :: "real \<Rightarrow> real \<Rightarrow> real" where
  "aspectAngle a b = (let diff = \<bar>a - b\<bar> in if diff > 180 then 360 - diff else diff)"

text \<open>The chain of conditionals that names the aspect; the empty string when none matches.\<close>

definition aspectTypeOf :: "real \<Rightarrow> string" where
  "aspectTypeOf angle =
     (if \<bar>angle - 0\<bar> \<le> ORB then ''Conjunction''
      else if \<bar>angle - 60\<bar> \<le> ORB * 0.7 then ''Sextile''
      else if \<bar>angle - 90\<bar> \<le> ORB then ''Square''
      else if \<bar>angle - 120\<bar> \<le> ORB then ''Trine''
      else if \<bar>angle - 180\<bar> \<le> ORB then ''Opposition''
      else [])"

text \<open>The exact angle of a named aspect, as the nested conditional of the record reads it.\<close>

definition exactAngle :: "string \<Rightarrow> real" where
  "exactAngle ty =
     (if ty = ''Conjunction'' then 0
      else if ty = ''Sextile'' then 60
      else if ty = ''Square'' then 90
      else if ty = ''Trine'' then 120
      else 180)"

text \<open>The body of the inner loop: the records one pair of planets pushes, none or one.\<close>

definition pairAspect :: "PlanetPosition \<Rightarrow> PlanetPosition \<Rightarrow> SynastryAspect list" where
  "pairAspect pA pB =
     (let angle = aspectAngle (PlanetPosition.degree pA) (PlanetPosition.degree pB);
          ty = aspectTypeOf angle
      in if ty \<noteq> [] then
           [\<lparr>planetA = PlanetPosition.name pA,
             planetB = PlanetPosition.name pB,
             aspectType = ty,
             description = [],
             orb = \<bar>angle - exactAngle ty\<bar>\<rparr>]
         else [])"

text \<open>The array \<^verbatim>\<open>aspects\<close> after the two nested loops, in the order of the pushes.\<close>

definition allAspects :: "CalculatedChart \<Rightarrow> CalculatedChart \<Rightarrow> SynastryAspect list" where
  "allAspects p1 p2 =
     concat (map (\<lambda>pA. concat (map (\<lambda>pB. pairAspect pA pB) (planets p2))) (planets p1))"

text \<open>
  \<^verbatim>\<open>Array.prototype.sort\<close> with the comparator \<^verbatim>\<open>a.orb - b.orb\<close> orders by the
  key \<open>orb\<close>; the language standard requires the sort to be stable. That is
  \<^const>\<open>sort_key\<close>, the stable insertion sort. \<^verbatim>\<open>slice(0, 8)\<close> keeps the first eight.
\<close>

definition calculateAspects :: "CalculatedChart \<Rightarrow> CalculatedChart \<Rightarrow> SynastryAspect list" where
  "calculateAspects p1 p2 = take 8 (sort_key orb (allAspects p1 p2))"





section \<open>The layout resolver (ZodiacWheel)\<close>

text \<open>A planet with its track and isolation flag: the planet's fields and two more.\<close>

record LayoutEntry = PlanetPosition +
  track :: nat
  isIsolated :: bool

definition getDist :: "real \<Rightarrow> real \<Rightarrow> real" where
  "getDist d1 d2 = (let diff = \<bar>d1 - d2\<bar> in if diff > 180 then 360 - diff else diff)"

text \<open>
  The tracks marked as used for the planet at index \<open>i\<close>: the look-back over the up to
  four entries processed before it. The program keeps them in a set and only asks for
  membership; the list here holds the same members.
\<close>

definition usedTracks :: "LayoutEntry list \<Rightarrow> real \<Rightarrow> PlanetPosition \<Rightarrow> nat \<Rightarrow> nat list" where
  "usedTracks withTracks minDeg planet i =
     concat (map (\<lambda>j.
         if j \<le> i \<and> getDist (PlanetPosition.degree planet)
                        (PlanetPosition.degree (withTracks ! (i - j))) < minDeg
         then [track (withTracks ! (i - j))] else [])
       [1, 2, 3, 4])"

text \<open>\<^verbatim>\<open>while (usedTracks.has(track)) track++\<close>, from the given start.\<close>

function firstFree :: "nat list \<Rightarrow> nat \<Rightarrow> nat" where
  "firstFree used t = (if t \<in> set used then firstFree used (Suc t) else t)"
  by pat_completeness auto
termination
proof (relation "measure (\<lambda>(used, t). Suc (Max (set used)) - t)")
  show "wf (measure (\<lambda>(used, t). Suc (Max (set used)) - t))" by simp
next
  fix used :: "nat list" and t :: nat
  assume "t \<in> set used"
  then have "t \<le> Max (set used)" by simp
  then show "((used, Suc t), (used, t)) \<in> measure (\<lambda>(used, t). Suc (Max (set used)) - t)"
    by simp
qed

declare firstFree.simps [simp del]

text \<open>
  The body of the main loop for index \<open>i\<close> of the sorted array: the isolation flag from
  the two neighbours on the ring, the first free track, and the push.
\<close>

definition placePlanet ::
  "PlanetPosition list \<Rightarrow> real \<Rightarrow> LayoutEntry list \<Rightarrow> nat \<Rightarrow> LayoutEntry list" where
  "placePlanet sortedPlanets minDeg withTracks i =
     (let planet = sortedPlanets ! i;
          n = length sortedPlanets;
          prev = sortedPlanets ! ((i + n - 1) mod n);
          next = sortedPlanets ! ((i + 1) mod n);
          isolated =
            (if n > 1 then
               (let dPrev = getDist (PlanetPosition.degree planet) (PlanetPosition.degree prev);
                    dNext = getDist (PlanetPosition.degree planet) (PlanetPosition.degree next)
                in \<not> (dPrev < 15 \<or> dNext < 15))
             else True);
          tr = firstFree (usedTracks withTracks minDeg planet i) 0
      in withTracks @ [PlanetPosition.extend planet (LayoutEntry.fields tr isolated)])"

text \<open>
  The sort by degree is the stable sort of the language, \<^const>\<open>sort_key\<close>. After the
  main loop the wrap-around patch raises the first entry's track by one when the first
  and the last entry are closer than \<open>minDeg\<close> and share a track. The parameter
  \<open>minDeg\<close> has the default 6 in the program; here it is always given. The program's
  \<^verbatim>\<open>sorted\<close>, \<^verbatim>\<open>last\<close>, \<^verbatim>\<open>track\<close> and \<^verbatim>\<open>isIsolated\<close> are written \<open>sortedPlanets\<close>,
  \<open>final\<close>, \<open>tr\<close> and \<open>isolated\<close> where the name is taken.
\<close>

definition resolveCollisions :: "PlanetPosition list \<Rightarrow> real \<Rightarrow> LayoutEntry list" where
  "resolveCollisions ps minDeg =
     (let sortedPlanets = sort_key PlanetPosition.degree ps;
          withTracks = foldl (placePlanet sortedPlanets minDeg) [] [0..<length sortedPlanets]
      in if length withTracks > 1 then
           (let first = withTracks ! 0;
                final = withTracks ! (length withTracks - 1)
            in if getDist (PlanetPosition.degree first) (PlanetPosition.degree final) < minDeg
                  \<and> track first = track final
               then withTracks[0 := first\<lparr>track := track first + 1\<rparr>]
               else withTracks)
         else withTracks)"

section \<open>Sample inputs\<close>

text \<open>
  Concrete inputs on which the model is evaluated.

  The rounding of a real to the nearest double, ties to the even significand: a double
  of magnitude in \<open>[2^e, 2^(e+1))\<close> is a multiple of \<open>2^(e-52)\<close>. Overflow and
  subnormal numbers are far from the magnitudes of the program and are not modelled.
\<close>

definition round_even :: "real \<Rightarrow> int" where
  "round_even q =
     (let f = \<lfloor>q\<rfloor>; d = q - of_int f
      in if d < 1 / 2 then f else if 1 / 2 < d then f + 1 else if even f then f else f + 1)"

definition fl_double :: "real \<Rightarrow> real" where
  "fl_double x =
     (let u = 2 powr (of_int \<lfloor>log 2 \<bar>x\<bar>\<rfloor> - 52)
      in sgn x * (u * of_int (round_even (\<bar>x\<bar> / u))))"

text \<open>
  The tangent as the platform computes it: the real tangent, except at \<open>\<pi>/2\<close> and
  \<open>-\<pi>/2\<close>. There the program's argument, \<^verbatim>\<open>90 * Math.PI / 180\<close>, is the double next to
  \<open>\<pi>/2\<close>, and \<^verbatim>\<open>Math.tan\<close> of it is 16331239353195370 (and the negative of that for
  -90 degrees).
\<close>

definition double_tan :: "real \<Rightarrow> real" where
  "double_tan x =
     (if x = pi / 2 then 16331239353195370
      else if x = - (pi / 2) then - 16331239353195370
      else tan x)"

definition double_platform :: Platform where
  "double_platform = \<lparr>fl = fl_double, Math_tan = double_tan\<rparr>"

text \<open>
  A stand-in for the ephemeris library: the observer is accepted for latitudes from -90
  to +90, both included; sidereal time is 0 hours; a body is at 36 degrees per letter
  of its name at the epoch and moves back by a tenth of a degree per hour.
\<close>

definition sample_engine :: Astronomy where
  "sample_engine =
     \<lparr>Observer_ok = (\<lambda>lat lon height. - 90 \<le> lat \<and> lat \<le> 90),
      SiderealTime = (\<lambda>date. 0),
      elon = (\<lambda>body date. 36 * real (length body) - real_of_int date / 36000000)\<rparr>"

text \<open>A planet at a longitude, and a chart that holds the given planets.\<close>

definition planet_at :: "string \<Rightarrow> real \<Rightarrow> PlanetPosition" where
  "planet_at nm d =
     \<lparr>PlanetPosition.name = nm, sign = [], degree = d, relativeDegree = 0,
      house = 1, retrograde = False\<rparr>"

definition chart_of :: "PlanetPosition list \<Rightarrow> CalculatedChart" where
  "chart_of ps =
     \<lparr>planets = ps,
      rising = \<lparr>Rising.sign = [], degree = 0\<rparr>,
      elements = \<lparr>ElementalBalance.fire = 0, earth = 0, air = 0, water = 100\<rparr>,
      bigThree = \<lparr>sun = [], moon = [], rising = []\<rparr>\<rparr>"

text \<open>
  The chart of the sample engine at the epoch, for an observer at latitude 0 and
  longitude 0.
\<close>

definition sample_chart :: CalculatedChart where
  "sample_chart =
     \<lparr>planets =
        map (\<lambda>(b, s, d, r, h). \<lparr>PlanetPosition.name = b, sign = s, degree = d,
                relativeDegree = r, house = h, retrograde = True\<rparr>)
          [(''Sun'', ''Cancer'', 108, 18, 1), (''Moon'', ''Leo'', 144, 24, 2),
           (''Mercury'', ''Sagittarius'', 252, 12, 6), (''Venus'', ''Libra'', 180, 0, 4),
           (''Mars'', ''Leo'', 144, 24, 2), (''Jupiter'', ''Sagittarius'', 252, 12, 6),
           (''Saturn'', ''Scorpio'', 216, 6, 5), (''Uranus'', ''Scorpio'', 216, 6, 5),
           (''Neptune'', ''Sagittarius'', 252, 12, 6), (''Pluto'', ''Libra'', 180, 0, 4)],
      rising = \<lparr>Rising.sign = ''Cancer'', degree = 90\<rparr>,
      elements = \<lparr>ElementalBalance.fire = 50, earth = 0, air = 20, water = 30\<rparr>,
      bigThree = \<lparr>sun = ''Cancer'', moon = ''Leo'', rising = ''Cancer''\<rparr>\<rparr>"

definition five_entities :: "PlanetPosition list" where
  "five_entities =
     [planet_at ''Sun'' 0, planet_at ''Moon'' 2, planet_at ''Mercury'' 4,
      planet_at ''Venus'' 6, planet_at ''Mars'' 100]"

text \<open>Three planets one degree apart, for a chart compared with itself.\<close>

definition three_planets :: CalculatedChart where
  "three_planets = chart_of [planet_at ''Sun'' 0, planet_at ''Moon'' 1, planet_at ''Mars'' 2]"

section \<open>Properties of the built-in operations\<close>

lemma trunc_nonneg: "0 \<le> x \<Longrightarrow> trunc x = \<lfloor>x\<rfloor>"
  by (simp add: trunc_def)


lemma js_rem_shift:
  assumes "0 \<le> a" and "a < b"
  shows "js_rem (a + b) b = a"
proof -
  have b: "0 < b" using assms by linarith
  have "(a + b) / b = a / b + 1" using b by (simp add: add_divide_distrib)
  moreover have "\<lfloor>a / b\<rfloor> = 0" using assms b by (simp add: floor_eq_iff)
  moreover have "0 \<le> (a + b) / b" using assms b by simp
  ultimately show ?thesis
    by (simp add: js_rem_def trunc_nonneg)
qed

section \<open>Rounding to the nearest double\<close>


lemma round_even_int [simp]: "round_even (of_int n) = n"
  by (simp add: round_even_def)




lemma binade:
  assumes "0 < y"
  shows "2 powr of_int \<lfloor>log 2 y\<rfloor> \<le> y \<and> y < 2 powr (of_int \<lfloor>log 2 y\<rfloor> + 1)"
  using floor_log_eq_powr_iff [of y 2 "\<lfloor>log 2 y\<rfloor>"] assms by simp

lemma binade_unique:
  assumes "0 < y" and "2 powr of_int e \<le> y" and "y < 2 powr (of_int e + 1)"
  shows "\<lfloor>log 2 y\<rfloor> = e"
  using floor_log_eq_powr_iff [of y 2 e] assms by simp

lemma fl_double_pos:
  assumes "0 < y" and "2 powr of_int e \<le> y" and "y < 2 powr (of_int e + 1)"
  shows "fl_double y = 2 powr (of_int e - 52) * of_int (round_even (y / 2 powr (of_int e - 52)))"
  using assms binade_unique [OF assms] by (simp add: fl_double_def Let_def)



lemma fl_double_zero [simp]: "fl_double 0 = 0"
  by (simp add: fl_double_def)

lemma fl_double_minus: "fl_double (- x) = - fl_double x"
  by (simp add: fl_double_def Let_def)




lemma fl_double_exact:
  assumes "0 < y" and "2 powr of_int e \<le> y" and "y < 2 powr (of_int e + 1)"
    and "y / 2 powr (of_int e - 52) = of_int n"
  shows "fl_double y = y"
proof -
  have "fl_double y = 2 powr (of_int e - 52) * of_int n"
    using fl_double_pos [OF assms(1-3)] assms(4) by simp
  also have "\<dots> = 2 powr (of_int e - 52) * (y / 2 powr (of_int e - 52))"
    using assms(4) by simp
  also have "\<dots> = y" by simp
  finally show ?thesis .
qed



lemma fl_double_360 [simp]: "fl_double 360 = 360"
  by (rule fl_double_exact [where e = 8 and n = "360 * 2 ^ 44"]) (simp_all add: powr_minus)

lemma fl_double_720 [simp]: "fl_double 720 = 720"
  by (rule fl_double_exact [where e = 9 and n = "720 * 2 ^ 43"]) (simp_all add: powr_minus)


lemma fl_double_of_int:
  assumes "0 < n" and "n < 2 ^ 53"
  shows "fl_double (of_int n) = of_int n"
proof -
  let ?y = "of_int n :: real"
  let ?e = "\<lfloor>log 2 ?y\<rfloor>"
  have y: "0 < ?y" using assms by simp
  have bin: "2 powr of_int ?e \<le> ?y" "?y < 2 powr (of_int ?e + 1)"
    using binade [OF y] by simp_all
  have "?y < 2 powr 53" using assms(2) by (simp flip: of_int_less_iff)
  then have "log 2 ?y < 53" using y by (simp add: log_less_iff)
  then have e: "?e \<le> 52" by (simp add: floor_le_iff)
  define k where "k = nat (52 - ?e)"
  have "real k = 52 - of_int ?e" using e by (simp add: k_def)
  then have "2 powr (52 - of_int ?e) = (2 :: real) ^ k"
    by (metis powr_realpow zero_less_numeral)
  then have "?y / 2 powr (of_int ?e - 52) = ?y * 2 ^ k"
    by (simp add: powr_diff field_simps)
  also have "\<dots> = of_int (n * 2 ^ k)" by simp
  finally show ?thesis using fl_double_exact [OF y bin] by blast
qed

lemma fl_double_numeral [simp]:
  "(numeral k :: int) < 2 ^ 53 \<Longrightarrow> fl_double (numeral k) = numeral k"
  using fl_double_of_int [of "numeral k"] by simp

lemma fl_double_neg_numeral [simp]:
  "(numeral k :: int) < 2 ^ 53 \<Longrightarrow> fl_double (- numeral k) = - numeral k"
  using fl_double_numeral [of k] by (simp add: fl_double_minus)



section \<open>Longitude normalization\<close>



lemma fl_double_platform: "fl double_platform = fl_double"
  by (simp add: double_platform_def)





section \<open>The ascendant\<close>




















section \<open>Houses and the retrograde flag\<close>

lemma house_of_mod:
  "0 \<le> s - a + 12 \<Longrightarrow> house_of s a = (s - a + 12) mod 12 + 1"
  by (simp add: house_of_def js_irem_def)

lemma house_of_range:
  assumes "0 \<le> asc" "asc \<le> 11" "0 \<le> s" "s \<le> 11"
  shows "house_of s asc = (if asc \<le> s then s - asc + 1 else s - asc + 13)"
proof -
  have h: "house_of s asc = (s - asc + 12) mod 12 + 1"
    using assms by (intro house_of_mod) simp
  show ?thesis
  proof (cases "asc \<le> s")
    case True
    have "(s - asc + 12) mod 12 = (s - asc) mod 12" by simp
    also have "\<dots> = s - asc" using True assms by (intro mod_pos_pos_trivial) simp_all
    finally show ?thesis using h True by simp
  next
    case False
    have "(s - asc + 12) mod 12 = s - asc + 12"
      using False assms by (intro mod_pos_pos_trivial) simp_all
    then show ?thesis using h False by simp
  qed
qed

text \<open>
  Claim C6. For every ascendant sign index in 0..11, the house mapping
  \<open>signIndex \<mapsto> ((signIndex - ascendantSignIndex + 12) mod 12) + 1\<close> is a bijection from
  the twelve sign indices 0..11 onto the houses 1..12.
\<close>

theorem house_bijection:
  "asc \<in> {0..11} \<Longrightarrow> bij_betw (\<lambda>signIndex. house_of signIndex asc) {0..11} {1..12}"
proof -
  assume a: "asc \<in> {0..11}"
  have inj: "inj_on (\<lambda>signIndex. house_of signIndex asc) {0..11}"
  proof (rule inj_onI)
    fix s t :: int
    assume s: "s \<in> {0..11}" and t: "t \<in> {0..11}" and e: "house_of s asc = house_of t asc"
    show "s = t"
      using a s t e by (simp add: house_of_range split: if_splits)
  qed
  have sub: "(\<lambda>signIndex. house_of signIndex asc) ` {0..11} \<subseteq> {1..12}"
    using a by (auto simp: house_of_range)
  have "card ((\<lambda>signIndex. house_of signIndex asc) ` {0..11}) = card {0..11::int}"
    using inj by (rule card_image)
  then have "card ((\<lambda>signIndex. house_of signIndex asc) ` {0..11}) = card {1..12::int}"
    by simp
  with sub have "(\<lambda>signIndex. house_of signIndex asc) ` {0..11} = {1..12}"
    by (intro card_subset_eq) simp_all
  with inj show ?thesis by (simp add: bij_betw_def)
qed

theorem house_bijection_witness:
  "(3::int) \<in> {0..11} \<and> bij_betw (\<lambda>signIndex. house_of signIndex 3) {0..11} {1..12}
     \<and> map (\<lambda>signIndex. house_of signIndex 3) [0, 1, 2, 3, 4, 5, 6, 7, 8, 9, 10, 11]
         = [10, 11, 12, 1, 2, 3, 4, 5, 6, 7, 8, 9]"
proof -
  have h: "(3::int) \<in> {0..11}" by simp
  have m: "map (\<lambda>signIndex. house_of signIndex 3) [0, 1, 2, 3, 4, 5, 6, 7, 8, 9, 10, 11]
         = [10, 11, 12, 1, 2, 3, 4, 5, 6, 7, 8, 9]"
    by (simp add: house_of_def js_irem_def)
  show ?thesis using h m house_bijection [OF h] by simp
qed

lemma normalized_double_int:
  assumes "0 \<le> n" and "n < 360"
  shows "normalized double_platform (of_int n) = of_int n"
proof -
  have "fl_double (of_int (n + 360)) = of_int (n + 360)"
    using assms by (intro fl_double_of_int) simp_all
  then have "fl_double (of_int n + 360) = of_int n + 360" by simp
  moreover have "js_rem (of_int n + 360) 360 = (of_int n :: real)"
    using assms by (intro js_rem_shift) simp_all
  ultimately show ?thesis by (simp add: normalized_def fl_double_platform)
qed

lemma normalized_double_samples:
  "normalized double_platform 90 = 90" "normalized double_platform 108 = 108"
  "normalized double_platform 144 = 144" "normalized double_platform 180 = 180"
  "normalized double_platform 216 = 216" "normalized double_platform 252 = 252"
  using normalized_double_int [of 90] normalized_double_int [of 108]
    normalized_double_int [of 144] normalized_double_int [of 180]
    normalized_double_int [of 216] normalized_double_int [of 252]
  by simp_all




section \<open>Elemental balance\<close>

lemma percent_ten: "percent c 10 = 10 * int c"
proof -
  have "real c / 10 * 100 + 1 / 2 = of_int (10 * int c) + 1 / 2" by simp
  then have "\<lfloor>real c / 10 * 100 + 1 / 2\<rfloor> = 10 * int c"
    by (simp add: floor_eq_iff)
  then show ?thesis by (simp add: percent_def Math_round_def)
qed

text \<open>
  Claim C3. For every assignment of the ten bodies to the four elements, that is for any
  counts of fire, earth, air and water that sum to 10, the four percentages of the chart
  (fire, earth and air rounded from count / 10 * 100, water the remainder to 100, clipped
  at 0) sum to exactly 100.
\<close>

theorem percentages_sum_100:
  "ElementCounts.fire c + ElementCounts.earth c + ElementCounts.air c
      + ElementCounts.water c = 10 \<Longrightarrow>
     ElementalBalance.fire (percentages c 10) + ElementalBalance.earth (percentages c 10)
       + ElementalBalance.air (percentages c 10) + ElementalBalance.water (percentages c 10)
     = 100"
  by (simp add: percentages_def waterPct_def percent_ten)

theorem percentages_sum_100_witness:
  "ElementCounts.fire \<lparr>ElementCounts.fire = 3, earth = 3, air = 3, water = 1\<rparr>
     + ElementCounts.earth \<lparr>ElementCounts.fire = 3, earth = 3, air = 3, water = 1\<rparr>
     + ElementCounts.air \<lparr>ElementCounts.fire = 3, earth = 3, air = 3, water = 1\<rparr>
     + ElementCounts.water \<lparr>ElementCounts.fire = 3, earth = 3, air = 3, water = 1\<rparr> = 10
   \<and> percentages \<lparr>ElementCounts.fire = 3, earth = 3, air = 3, water = 1\<rparr> 10
       = \<lparr>ElementalBalance.fire = 30, earth = 30, air = 30, water = 10\<rparr>
   \<and> ElementalBalance.fire (percentages \<lparr>ElementCounts.fire = 3, earth = 3, air = 3, water = 1\<rparr> 10)
     + ElementalBalance.earth (percentages \<lparr>ElementCounts.fire = 3, earth = 3, air = 3, water = 1\<rparr> 10)
     + ElementalBalance.air (percentages \<lparr>ElementCounts.fire = 3, earth = 3, air = 3, water = 1\<rparr> 10)
     + ElementalBalance.water (percentages \<lparr>ElementCounts.fire = 3, earth = 3, air = 3, water = 1\<rparr> 10)
     = 100"
proof -
  have h: "ElementCounts.fire \<lparr>ElementCounts.fire = 3, earth = 3, air = 3, water = 1\<rparr>
     + ElementCounts.earth \<lparr>ElementCounts.fire = 3, earth = 3, air = 3, water = 1\<rparr>
     + ElementCounts.air \<lparr>ElementCounts.fire = 3, earth = 3, air = 3, water = 1\<rparr>
     + ElementCounts.water \<lparr>ElementCounts.fire = 3, earth = 3, air = 3, water = 1\<rparr> = 10"
    by simp
  have v: "percentages \<lparr>ElementCounts.fire = 3, earth = 3, air = 3, water = 1\<rparr> 10
       = \<lparr>ElementalBalance.fire = 30, earth = 30, air = 30, water = 10\<rparr>"
    by (simp add: percentages_def waterPct_def percent_def Math_round_def)
  show ?thesis using h v percentages_sum_100 [OF h] by simp
qed

section \<open>Aspects\<close>






lemma count_list_insort_key:
  "count_list (insort_key f x xs) r = count_list (x # xs) r"
  by (induction xs) auto

lemma count_list_sort_key: "count_list (sort_key f xs) r = count_list xs r"
  by (induction xs) (simp_all add: count_list_insort_key)

lemma sorted_take_drop:
  assumes "sorted (map f xs)"
  shows "\<forall>a \<in> set (take n xs). \<forall>b \<in> set (drop n xs). f a \<le> f b"
proof -
  have "sorted (map f (take n xs) @ map f (drop n xs))"
    using assms by (simp flip: map_append)
  then show ?thesis by (auto simp: sorted_append)
qed

text \<open>
  Claim C5. The list that aspect detection returns is the enumerated list sorted by orb
  and cut to its first eight: it is sorted ascending by orb; it has eight records, or all
  of them when there are fewer; together with the records left out it holds exactly the
  enumerated records, and no record left out has a smaller orb than a record returned;
  and records of equal orb keep the order in which the pairs were enumerated: for every
  orb value, the returned records of that orb are an initial segment of the enumerated
  records of that orb.
\<close>

theorem aspects_sorted_capped_stable:
  "sorted (map orb (calculateAspects p1 p2))
   \<and> length (calculateAspects p1 p2) = min 8 (length (allAspects p1 p2))
   \<and> (\<exists>rest. (\<forall>r. count_list (calculateAspects p1 p2 @ rest) r
                      = count_list (allAspects p1 p2) r)
              \<and> (\<forall>a \<in> set (calculateAspects p1 p2). \<forall>b \<in> set rest. orb a \<le> orb b))
   \<and> (\<forall>k. prefix (filter (\<lambda>r. orb r = k) (calculateAspects p1 p2))
               (filter (\<lambda>r. orb r = k) (allAspects p1 p2)))"
proof -
  let ?all = "allAspects p1 p2"
  let ?s = "sort_key orb ?all"
  have res: "calculateAspects p1 p2 = take 8 ?s" by (simp add: calculateAspects_def)
  have ss: "sorted (map orb ?s)" by (rule sorted_sort_key)
  then have "sorted (take 8 (map orb ?s))" by (rule sorted_wrt_take)
  then have s: "sorted (map orb (calculateAspects p1 p2))" by (simp add: res take_map)
  have l: "length (calculateAspects p1 p2) = min 8 (length ?all)"
    by (simp add: res min.commute)
  have c: "\<forall>r. count_list (calculateAspects p1 p2 @ drop 8 ?s) r = count_list ?all r"
    by (simp add: res count_list_sort_key)
  have t: "\<forall>a \<in> set (calculateAspects p1 p2). \<forall>b \<in> set (drop 8 ?s). orb a \<le> orb b"
    unfolding res using ss by (rule sorted_take_drop)
  have st: "prefix (filter (\<lambda>r. orb r = k) (calculateAspects p1 p2))
               (filter (\<lambda>r. orb r = k) ?all)" for k
  proof -
    have "prefix (take 8 ?s) ?s" by (rule take_is_prefix)
    then have "prefix (filter (\<lambda>r. orb r = k) (take 8 ?s)) (filter (\<lambda>r. orb r = k) ?s)"
      by (rule filter_mono_prefix)
    then show ?thesis by (simp add: res sort_key_stable)
  qed
  from c t have "\<exists>rest. (\<forall>r. count_list (calculateAspects p1 p2 @ rest) r = count_list ?all r)
              \<and> (\<forall>a \<in> set (calculateAspects p1 p2). \<forall>b \<in> set rest. orb a \<le> orb b)"
    by blast
  then show ?thesis using s l st by simp
qed

lemma three_planets_aspects:
  "map (\<lambda>r. (planetA r, planetB r, orb r)) (allAspects three_planets three_planets)
     = [(''Sun'', ''Sun'', 0), (''Sun'', ''Moon'', 1), (''Sun'', ''Mars'', 2),
        (''Moon'', ''Sun'', 1), (''Moon'', ''Moon'', 0), (''Moon'', ''Mars'', 1),
        (''Mars'', ''Sun'', 2), (''Mars'', ''Moon'', 1), (''Mars'', ''Mars'', 0)]
   \<and> map (\<lambda>r. (planetA r, planetB r, orb r)) (calculateAspects three_planets three_planets)
     = [(''Sun'', ''Sun'', 0), (''Moon'', ''Moon'', 0), (''Mars'', ''Mars'', 0),
        (''Sun'', ''Moon'', 1), (''Moon'', ''Sun'', 1), (''Moon'', ''Mars'', 1),
        (''Mars'', ''Moon'', 1), (''Sun'', ''Mars'', 2)]"
  by code_simp

theorem aspects_sorted_capped_stable_witness:
  "map (\<lambda>r. (planetA r, planetB r, orb r)) (allAspects three_planets three_planets)
     = [(''Sun'', ''Sun'', 0), (''Sun'', ''Moon'', 1), (''Sun'', ''Mars'', 2),
        (''Moon'', ''Sun'', 1), (''Moon'', ''Moon'', 0), (''Moon'', ''Mars'', 1),
        (''Mars'', ''Sun'', 2), (''Mars'', ''Moon'', 1), (''Mars'', ''Mars'', 0)]
   \<and> map (\<lambda>r. (planetA r, planetB r, orb r)) (calculateAspects three_planets three_planets)
     = [(''Sun'', ''Sun'', 0), (''Moon'', ''Moon'', 0), (''Mars'', ''Mars'', 0),
        (''Sun'', ''Moon'', 1), (''Moon'', ''Sun'', 1), (''Moon'', ''Mars'', 1),
        (''Mars'', ''Moon'', 1), (''Sun'', ''Mars'', 2)]
   \<and> sorted (map orb (calculateAspects three_planets three_planets))
   \<and> length (calculateAspects three_planets three_planets)
       = min 8 (length (allAspects three_planets three_planets))
   \<and> (\<exists>rest. (\<forall>r. count_list (calculateAspects three_planets three_planets @ rest) r
                      = count_list (allAspects three_planets three_planets) r)
              \<and> (\<forall>a \<in> set (calculateAspects three_planets three_planets).
                    \<forall>b \<in> set rest. orb a \<le> orb b))
   \<and> (\<forall>k. prefix (filter (\<lambda>r. orb r = k) (calculateAspects three_planets three_planets))
               (filter (\<lambda>r. orb r = k) (allAspects three_planets three_planets)))"
  using aspects_sorted_capped_stable [of three_planets three_planets] three_planets_aspects
  by blast

text \<open>
  Three runs of the detector: two sextiles of orb 0 come before a conjunction of orb 1 and
  keep their order of enumeration; nine aspects are cut to eight; and the pair at 95 and
  300 degrees (separation 155) is in no band and gives no record.
\<close>

lemma aspects_tie_example:
  "map (\<lambda>r. (planetB r, aspectType r, orb r))
     (calculateAspects (chart_of [planet_at ''Sun'' 0])
        (chart_of [planet_at ''Venus'' 1, planet_at ''Moon'' 60, planet_at ''Mars'' 300]))
   = [(''Moon'', ''Sextile'', 0), (''Mars'', ''Sextile'', 0), (''Venus'', ''Conjunction'', 1)]"
  by code_simp

lemma aspects_cap_example:
  "length (allAspects (chart_of [planet_at ''Sun'' 0, planet_at ''Moon'' 1, planet_at ''Mars'' 2])
            (chart_of [planet_at ''Sun'' 0, planet_at ''Moon'' 1, planet_at ''Mars'' 2])) = 9
   \<and> length (calculateAspects (chart_of [planet_at ''Sun'' 0, planet_at ''Moon'' 1, planet_at ''Mars'' 2])
            (chart_of [planet_at ''Sun'' 0, planet_at ''Moon'' 1, planet_at ''Mars'' 2])) = 8"
  by code_simp

lemma unaspected_example:
  "calculateAspects (chart_of [planet_at ''Sun'' 95]) (chart_of [planet_at ''Moon'' 300]) = []"
  by code_simp

section \<open>The layout of five entities\<close>

text \<open>
  Claim C8, as amended. For the five entities at longitudes 0, 2, 4, 6 and 100 with a
  minimum separation of 6, the resolver gives the first three the tracks 0, 1, 2, the
  entity at 6 the track 0 again (its distance to the entity at 0 is exactly 6, which is
  not below the minimum, so only tracks 1 and 2 are marked), and the entity at 100 the
  track 0 with the isolated flag set; no other entity is isolated.
\<close>

theorem five_entities_layout:
  "map (\<lambda>e. (PlanetPosition.degree e, track e, isIsolated e)) (resolveCollisions five_entities 6)
     = [(0, 0, False), (2, 1, False), (4, 2, False), (6, 0, False), (100, 0, True)]"
  by code_simp

text \<open>The tracks are not 0, 1, 2, 3, 0: the fourth entity is on track 0.\<close>

theorem five_entities_fourth_track_counterexample:
  "map track (resolveCollisions five_entities 6) \<noteq> [0, 1, 2, 3, 0]
   \<and> track (resolveCollisions five_entities 6 ! 3) = 0"
  by code_simp

section \<open>Track bounds of the layout resolver\<close>

lemma firstFree_skipped: "t \<le> k \<Longrightarrow> k < firstFree used t \<Longrightarrow> k \<in> set used"
proof (induction used t rule: firstFree.induct)
  case (1 used t)
  show ?case
  proof (cases "t \<in> set used")
    case True
    show ?thesis
    proof (cases "k = t")
      case True
      with \<open>t \<in> set used\<close> show ?thesis by simp
    next
      case False
      then have "Suc t \<le> k" using "1.prems"(1) by simp
      moreover have "k < firstFree used (Suc t)"
        using "1.prems"(2) \<open>t \<in> set used\<close> firstFree.simps [of used t] by simp
      ultimately show ?thesis using "1.IH" True by blast
    qed
  next
    case False
    then have "firstFree used t = t" using firstFree.simps [of used t] by simp
    then show ?thesis using "1.prems" by simp
  qed
qed

lemma firstFree_le_length: "firstFree used 0 \<le> length used"
proof -
  have "{0..<firstFree used 0} \<subseteq> set used"
    using firstFree_skipped [of 0 _ used] by auto
  then have "card {0..<firstFree used 0} \<le> card (set used)"
    by (intro card_mono) simp_all
  also have "\<dots> \<le> length used" by (rule card_length)
  finally show ?thesis by simp
qed

lemma length_usedTracks: "length (usedTracks withTracks minDeg planet i) \<le> 4"
  by (simp add: usedTracks_def)

lemma usedTracks_first: "usedTracks withTracks minDeg planet 0 = []"
  by (simp add: usedTracks_def)

lemma track_extend [simp]:
  "track (PlanetPosition.extend planet (LayoutEntry.fields tr isolated)) = tr"
  by (simp add: PlanetPosition.defs LayoutEntry.defs)

lemma placePlanet_snoc:
  "\<exists>e. placePlanet sp minDeg wt i = wt @ [e]
        \<and> track e = firstFree (usedTracks wt minDeg (sp ! i) i) 0"
  by (simp add: placePlanet_def Let_def)

lemma main_loop_invariant:
  "length (foldl (placePlanet sp minDeg) [] [0..<n]) = n
   \<and> (\<forall>e \<in> set (foldl (placePlanet sp minDeg) [] [0..<n]). track e \<le> 4)
   \<and> (0 < n \<longrightarrow> track (foldl (placePlanet sp minDeg) [] [0..<n] ! 0) = 0)"
proof (induction n)
  case 0
  show ?case by simp
next
  case (Suc n)
  let ?wt = "foldl (placePlanet sp minDeg) [] [0..<n]"
  obtain e where e: "placePlanet sp minDeg ?wt n = ?wt @ [e]"
    and te: "track e = firstFree (usedTracks ?wt minDeg (sp ! n) n) 0"
    using placePlanet_snoc by blast
  have step: "foldl (placePlanet sp minDeg) [] [0..<Suc n] = ?wt @ [e]"
    using e by simp
  have "track e \<le> length (usedTracks ?wt minDeg (sp ! n) n)"
    unfolding te by (rule firstFree_le_length)
  then have b: "track e \<le> 4" using length_usedTracks [of ?wt minDeg "sp ! n" n] by linarith
  have len: "length ?wt = n" using Suc.IH by simp
  have first: "track ((?wt @ [e]) ! 0) = 0"
  proof (cases n)
    case 0
    then have "?wt = []" by simp
    moreover have "track e = 0"
      using te 0 firstFree.simps [of "[]" 0] by (simp add: usedTracks_first)
    ultimately show ?thesis by simp
  next
    case (Suc m)
    then have "(?wt @ [e]) ! 0 = ?wt ! 0" using len by (simp add: nth_append)
    then show ?thesis using Suc.IH Suc by simp
  qed
  show ?case using step len b first Suc.IH by simp
qed

lemma resolveCollisions_cases:
  "resolveCollisions ps minDeg = wt \<Longrightarrow>
     (let lp = foldl (placePlanet (sort_key PlanetPosition.degree ps) minDeg) []
                 [0..<length (sort_key PlanetPosition.degree ps)]
      in wt = lp \<or> (1 < length lp \<and> wt = lp[0 := (lp ! 0)\<lparr>track := track (lp ! 0) + 1\<rparr>]))"
  by (auto simp: resolveCollisions_def Let_def split: if_splits)

text \<open>
  Claim C10. For every input list and every minimum separation, every track the resolver
  assigns is at most 5, and every entity other than the first in sorted order has a track
  of at most 4: the look-back marks at most four tracks, so the smallest free one is at
  most 4; the first entity starts on track 0 and only the wrap-around patch raises it, by
  one.
\<close>

theorem track_bounds:
  "(\<forall>e \<in> set (resolveCollisions ps minDeg). track e \<le> 5)
   \<and> (\<forall>i. 0 < i \<and> i < length (resolveCollisions ps minDeg)
          \<longrightarrow> track (resolveCollisions ps minDeg ! i) \<le> 4)
   \<and> (resolveCollisions ps minDeg \<noteq> [] \<longrightarrow> track (resolveCollisions ps minDeg ! 0) \<le> 1)"
proof -
  define sp where "sp = sort_key PlanetPosition.degree ps"
  define lp where "lp = foldl (placePlanet sp minDeg) [] [0..<length sp]"
  have inv: "length lp = length sp \<and> (\<forall>e \<in> set lp. track e \<le> 4)
              \<and> (0 < length sp \<longrightarrow> track (lp ! 0) = 0)"
    unfolding lp_def by (rule main_loop_invariant)
  have cases: "resolveCollisions ps minDeg = lp
      \<or> (1 < length lp
          \<and> resolveCollisions ps minDeg = lp[0 := (lp ! 0)\<lparr>track := track (lp ! 0) + 1\<rparr>])"
    using resolveCollisions_cases [OF refl, of ps minDeg]
    by (simp add: Let_def lp_def sp_def)
  then show ?thesis
  proof
    assume "resolveCollisions ps minDeg = lp"
    then show ?thesis using inv by (auto intro: le_trans)
  next
    assume p: "1 < length lp
          \<and> resolveCollisions ps minDeg = lp[0 := (lp ! 0)\<lparr>track := track (lp ! 0) + 1\<rparr>]"
    let ?x = "(lp ! 0)\<lparr>track := track (lp ! 0) + 1\<rparr>"
    have r: "resolveCollisions ps minDeg = lp[0 := ?x]" using p by simp
    have "0 < length sp" using inv p by linarith
    then have "track (lp ! 0) = 0" using inv by blast
    then have x: "track ?x = 1" by simp
    have a: "\<forall>e \<in> set (lp[0 := ?x]). track e \<le> 5"
    proof
      fix e assume "e \<in> set (lp[0 := ?x])"
      then have "e = ?x \<or> e \<in> set lp" using set_update_subset_insert by fastforce
      then show "track e \<le> 5" using x inv by (auto intro: le_trans)
    qed
    have b: "\<forall>i. 0 < i \<and> i < length (lp[0 := ?x]) \<longrightarrow> track (lp[0 := ?x] ! i) \<le> 4"
      using inv by simp
    have "0 < length lp" using p by linarith
    then have "lp[0 := ?x] ! 0 = ?x" by simp
    then have c: "track (lp[0 := ?x] ! 0) \<le> 1" using x by simp
    show ?thesis unfolding r using a b c by blast
  qed
qed

theorem track_bounds_witness:
  "resolveCollisions five_entities 6 ! 2 \<in> set (resolveCollisions five_entities 6)
   \<and> track (resolveCollisions five_entities 6 ! 2) \<le> 5
   \<and> 0 < (2::nat) \<and> 2 < length (resolveCollisions five_entities 6)
   \<and> track (resolveCollisions five_entities 6 ! 2) \<le> 4
   \<and> track (resolveCollisions five_entities 6 ! 2) = 2"
proof -
  have l: "length (resolveCollisions five_entities 6) = 5" by code_simp
  have t: "track (resolveCollisions five_entities 6 ! 2) = 2" by code_simp
  have m: "resolveCollisions five_entities 6 ! 2 \<in> set (resolveCollisions five_entities 6)"
    using l by simp
  show ?thesis using l t m track_bounds [of five_entities 6] by simp
qed

section \<open>Percentages of the ten-body chart\<close>

lemma map_result_Inr:
  "map_result f xs = Inr ys \<Longrightarrow>
     length ys = length xs \<and> (\<forall>y \<in> set ys. \<exists>x \<in> set xs. f x = Inr y)"
proof (induction xs arbitrary: ys)
  case Nil
  then show ?case by simp
next
  case (Cons x xs)
  from Cons.prems obtain y zs where y: "f x = Inr y" and zs: "map_result f xs = Inr zs"
    and ys: "ys = y # zs"
    by (auto split: sum.splits)
  from Cons.IH [OF zs] show ?case using y ys by auto
qed

lemma at_index_member: "at_index xs i = Some x \<Longrightarrow> x \<in> set xs"
  by (auto simp: at_index_def split: if_splits)

lemma calculatePlanet_sign:
  "calculatePlanet P A a d b = Inr p \<Longrightarrow>
     \<exists>z \<in> set ZODIAC_SIGNS. PlanetPosition.sign p = ZodiacSign.name z"
  by (auto simp: calculatePlanet_def getZodiacInfo_def Let_def
      split: prod.splits option.splits dest: at_index_member)

lemma table_elements:
  "z \<in> set ZODIAC_SIGNS \<Longrightarrow> element z \<noteq> [] \<and> element z \<in> set counts_keys"
  by (auto simp: ZODIAC_SIGNS_def counts_keys_def)

lemma element_of_counted:
  assumes "\<exists>z \<in> set ZODIAC_SIGNS. PlanetPosition.sign p = ZodiacSign.name z"
  shows "\<exists>el. element_of p = Some el \<and> el \<noteq> [] \<and> el \<in> set counts_keys"
proof -
  from assms obtain z where
    z: "find (\<lambda>z. ZodiacSign.name z = PlanetPosition.sign p) ZODIAC_SIGNS = Some z"
    by (cases "find (\<lambda>z. ZodiacSign.name z = PlanetPosition.sign p) ZODIAC_SIGNS")
       (auto simp: find_None_iff)
  then have "z \<in> set ZODIAC_SIGNS" by (auto simp: find_Some_iff)
  then show ?thesis using z table_elements [of z] by (simp add: element_of_def)
qed

lemma countElement_fields:
  "ElementCounts.fire (countElement c p)
      = ElementCounts.fire c + (if element_of p = Some ''fire'' then 1 else 0)"
  "ElementCounts.earth (countElement c p)
      = ElementCounts.earth c + (if element_of p = Some ''earth'' then 1 else 0)"
  "ElementCounts.air (countElement c p)
      = ElementCounts.air c + (if element_of p = Some ''air'' then 1 else 0)"
  "ElementCounts.water (countElement c p)
      = ElementCounts.water c + (if element_of p = Some ''water'' then 1 else 0)"
  by (auto simp: countElement_def increment_def counts_keys_def split: option.splits)

lemma foldl_countElement:
  "ElementCounts.fire (foldl countElement c ps) = ElementCounts.fire c + bodies_in ps ''fire''
   \<and> ElementCounts.earth (foldl countElement c ps) = ElementCounts.earth c + bodies_in ps ''earth''
   \<and> ElementCounts.air (foldl countElement c ps) = ElementCounts.air c + bodies_in ps ''air''
   \<and> ElementCounts.water (foldl countElement c ps) = ElementCounts.water c + bodies_in ps ''water''"
  by (induction ps arbitrary: c) (simp_all add: bodies_in_def countElement_fields)

lemma countElements_fields:
  "ElementCounts.fire (countElements ps) = bodies_in ps ''fire''"
  "ElementCounts.earth (countElements ps) = bodies_in ps ''earth''"
  "ElementCounts.air (countElements ps) = bodies_in ps ''air''"
  "ElementCounts.water (countElements ps) = bodies_in ps ''water''"
  using foldl_countElement [of "\<lparr>ElementCounts.fire = 0, earth = 0, air = 0, water = 0\<rparr>" ps]
  by (simp_all add: countElements_def)

lemma bodies_in_total:
  "\<forall>p \<in> set ps. \<exists>el. element_of p = Some el \<and> el \<in> set counts_keys \<Longrightarrow>
     bodies_in ps ''fire'' + bodies_in ps ''earth'' + bodies_in ps ''air''
       + bodies_in ps ''water'' = length ps"
proof (induction ps)
  case Nil
  show ?case by (simp add: bodies_in_def)
next
  case (Cons p ps)
  then obtain el where el: "element_of p = Some el" "el \<in> set counts_keys" by auto
  have "bodies_in ps ''fire'' + bodies_in ps ''earth'' + bodies_in ps ''air''
       + bodies_in ps ''water'' = length ps" using Cons by simp
  then show ?case using el by (auto simp: bodies_in_def counts_keys_def)
qed

lemma calculateChart_planets:
  assumes "calculateChart P A date lat lon = Inr chart"
  shows "length (planets chart) = 10
         \<and> (\<forall>p \<in> set (planets chart).
               \<exists>el. element_of p = Some el \<and> el \<noteq> [] \<and> el \<in> set counts_keys)
         \<and> elements chart = elementalBalance (planets chart)"
proof -
  from assms obtain ascSignIndex where
    m: "map_result (calculatePlanet P A ascSignIndex date) BODIES = Inr (planets chart)"
    and e: "elements chart = elementalBalance (planets chart)"
    by (auto simp: calculateChart_def Let_def split: sum.splits prod.splits option.splits)
  have r: "length (planets chart) = length BODIES
      \<and> (\<forall>y \<in> set (planets chart).
            \<exists>x \<in> set BODIES. calculatePlanet P A ascSignIndex date x = Inr y)"
    using m by (rule map_result_Inr)
  have l: "length (planets chart) = 10" using r by (simp add: BODIES_def)
  have d: "\<forall>p \<in> set (planets chart).
             \<exists>el. element_of p = Some el \<and> el \<noteq> [] \<and> el \<in> set counts_keys"
  proof
    fix p assume "p \<in> set (planets chart)"
    then obtain x where "calculatePlanet P A ascSignIndex date x = Inr p" using r by blast
    then have "\<exists>z \<in> set ZODIAC_SIGNS. PlanetPosition.sign p = ZodiacSign.name z"
      by (rule calculatePlanet_sign)
    then show "\<exists>el. element_of p = Some el \<and> el \<noteq> [] \<and> el \<in> set counts_keys"
      by (rule element_of_counted)
  qed
  show ?thesis using l d e by simp
qed

lemma sample_ascendant: "calculateAscendant double_platform sample_engine 0 0 0 = Inr 90"
proof -
  have "fl_double (of_int 450) = of_int 450" by (intro fl_double_of_int) simp_all
  then have f: "fl_double 450 = 450" by simp
  have r: "js_rem 450 360 = 90" by (simp add: js_rem_def trunc_def)
  show ?thesis
    by (simp add: calculateAscendant_def sample_engine_def double_platform_def double_tan_def
        Let_def Math_atan2_def f r)
qed

lemma sample_planets:
  "map_result (calculatePlanet double_platform sample_engine 3 0) BODIES =
     Inr (planets sample_chart)"
  by (simp add: BODIES_def sample_chart_def calculatePlanet_def getZodiacInfo_def
      normalized_double_samples sample_engine_def ZODIAC_SIGNS_def at_index_def js_rem_def
      trunc_def house_of_def js_irem_def Let_def)

lemma sample_rising:
  "getZodiacInfo double_platform 90
     = (Some \<lparr>ZodiacSign.name = ''Cancer'', startDegree = 90, element = ''water''\<rparr>, 0)"
  by (simp add: getZodiacInfo_def normalized_double_samples ZODIAC_SIGNS_def at_index_def
      js_rem_def trunc_def Let_def)

lemma sample_rising_index:
  "findIndex (\<lambda>z. ZodiacSign.name z = ''Cancer'') ZODIAC_SIGNS = 3"
  by (simp add: ZODIAC_SIGNS_def)

lemma sample_elements:
  "elementalBalance (planets sample_chart)
     = \<lparr>ElementalBalance.fire = 50, earth = 0, air = 20, water = 30\<rparr>"
  by (simp add: elementalBalance_def countElements_def countElement_def element_of_def
      increment_def counts_keys_def sample_chart_def ZODIAC_SIGNS_def percentages_def
      waterPct_def percent_def Math_round_def)

lemma sample_big_three:
  "sign_text (planets sample_chart) ''Sun'' = ''Cancer''"
  "sign_text (planets sample_chart) ''Moon'' = ''Leo''"
  by (simp_all add: sign_text_def sample_chart_def)

lemma sample_chart_computed:
  "calculateChart double_platform sample_engine 0 0 0 = Inr sample_chart"
proof -
  have "calculateChart double_platform sample_engine 0 0 0 =
      Inr \<lparr>planets = planets sample_chart,
           rising = \<lparr>Rising.sign = ''Cancer'', degree = 90\<rparr>,
           elements = elementalBalance (planets sample_chart),
           bigThree = \<lparr>sun = sign_text (planets sample_chart) ''Sun'',
                       moon = sign_text (planets sample_chart) ''Moon'',
                       rising = ''Cancer''\<rparr>\<rparr>"
    by (simp add: calculateChart_def sample_ascendant sample_rising sample_rising_index
        sample_planets)
  also have "\<dots> = Inr sample_chart"
    unfolding sample_elements sample_big_three by (simp add: sample_chart_def)
  finally show ?thesis .
qed

text \<open>
  Claim C9. In every chart the engine returns, with its ten fixed bodies, the fire, earth
  and air percentages are exactly 10 times the number of bodies in that element, the
  water percentage is exactly 10 times the number of water bodies, and the remainder
  given to water is never negative, so the clipping branch is not taken.
\<close>

theorem chart_percentages_ten_per_body:
  "calculateChart P A date lat lon = Inr chart \<Longrightarrow>
     ElementalBalance.fire (elements chart) = 10 * int (bodies_in (planets chart) ''fire'')
   \<and> ElementalBalance.earth (elements chart) = 10 * int (bodies_in (planets chart) ''earth'')
   \<and> ElementalBalance.air (elements chart) = 10 * int (bodies_in (planets chart) ''air'')
   \<and> ElementalBalance.water (elements chart) = 10 * int (bodies_in (planets chart) ''water'')
   \<and> \<not> waterPct (countElements (planets chart)) (max (length (planets chart)) 1) < 0"
proof -
  assume c: "calculateChart P A date lat lon = Inr chart"
  let ?ps = "planets chart"
  have l: "length ?ps = 10"
    and d: "\<forall>p \<in> set ?ps. \<exists>el. element_of p = Some el \<and> el \<noteq> [] \<and> el \<in> set counts_keys"
    and e: "elements chart = elementalBalance ?ps"
    using calculateChart_planets [OF c] by simp_all
  have "\<forall>p \<in> set ?ps. \<exists>el. element_of p = Some el \<and> el \<in> set counts_keys"
    using d by blast
  then have t: "bodies_in ?ps ''fire'' + bodies_in ?ps ''earth'' + bodies_in ?ps ''air''
       + bodies_in ?ps ''water'' = 10"
    using bodies_in_total l by simp
  have w: "waterPct (countElements ?ps) 10 = 10 * int (bodies_in ?ps ''water'')"
    using t by (simp add: waterPct_def percent_ten countElements_fields)
  have m: "max (length ?ps) 1 = 10" using l by simp
  show ?thesis
    unfolding e elementalBalance_def m
    using w by (simp add: percentages_def percent_ten countElements_fields)
qed

theorem chart_percentages_ten_per_body_witness:
  "calculateChart double_platform sample_engine 0 0 0 = Inr sample_chart
   \<and> elements sample_chart = \<lparr>ElementalBalance.fire = 50, earth = 0, air = 20, water = 30\<rparr>
   \<and> ElementalBalance.fire (elements sample_chart)
       = 10 * int (bodies_in (planets sample_chart) ''fire'')
   \<and> ElementalBalance.earth (elements sample_chart)
       = 10 * int (bodies_in (planets sample_chart) ''earth'')
   \<and> ElementalBalance.air (elements sample_chart)
       = 10 * int (bodies_in (planets sample_chart) ''air'')
   \<and> ElementalBalance.water (elements sample_chart)
       = 10 * int (bodies_in (planets sample_chart) ''water'')
   \<and> \<not> waterPct (countElements (planets sample_chart))
          (max (length (planets sample_chart)) 1) < 0"
proof -
  have e: "elements sample_chart
      = \<lparr>ElementalBalance.fire = 50, earth = 0, air = 20, water = 30\<rparr>"
    by (simp add: sample_chart_def)
  show ?thesis
    using chart_percentages_ten_per_body [OF sample_chart_computed] sample_chart_computed e
    by simp
qed

end
